theory Spec2Isabelle
  imports Main
begin

section \<open>JavaScript values\<close>

text \<open>
  The front end handles values of type \<open>any\<close> in two places: the body of an
  \<open>ApiError\<close> and the two attribute mappings of the template form. They are
  modelled as JSON-like values. An object is an association list of its own
  properties. Numbers are integers here; the only thing the code asks of a
  number is whether it is truthy.
\<close>

datatype js_value =
    JUndefined
  | JNull
  | JBool bool
  | JNum int
  | JStr string
  | JArr "js_value list"
  | JObj "(string \<times> js_value) list"

text \<open>JavaScript truthiness: every object and array is truthy, the empty one too.\<close>

definition truthy :: "js_value \<Rightarrow> bool" where
  "truthy v =
     (case v of
        JUndefined \<Rightarrow> False
      | JNull \<Rightarrow> False
      | JBool b \<Rightarrow> b
      | JNum n \<Rightarrow> n \<noteq> 0
      | JStr s \<Rightarrow> s \<noteq> []
      | JArr xs \<Rightarrow> True
      | JObj kvs \<Rightarrow> True)"

text \<open>The operator \<open>a || b\<close>: \<open>a\<close> when it is truthy, else \<open>b\<close>.\<close>

definition js_or :: "js_value \<Rightarrow> js_value \<Rightarrow> js_value" where
  "js_or a b = (if truthy a then a else b)"

text \<open>
  Optional property access \<open>v?.k\<close> on a data value: the property of an object,
  \<open>undefined\<close> when the object lacks it or when \<open>v\<close> is not an object.
\<close>

definition opt_get :: "js_value \<Rightarrow> string \<Rightarrow> js_value" where
  "opt_get v k =
     (case v of
        JObj kvs \<Rightarrow> (case map_of kvs k of Some x \<Rightarrow> x | None \<Rightarrow> JUndefined)
      | _ \<Rightarrow> JUndefined)"

section \<open>main.tsx: the global error handler\<close>

text \<open>
  An error reaching a cache's \<open>onError\<close> is an \<open>ApiError\<close>, with the status and
  body of the response, or some other \<open>Error\<close>.
\<close>

datatype js_error =
    ApiError int js_value
  | OtherError string

text \<open>The argument of \<open>toaster.create\<close>.\<close>

record toast_options =
  toast_title :: string
  toast_description :: js_value
  toast_type :: string
  toast_duration :: nat

text \<open>
  What the handler can touch: \<open>localStorage\<close>, \<open>window.location.href\<close> and the
  toasts created so far.
\<close>

record browser =
  localStorage :: "string \<rightharpoonup> string"
  location_href :: string
  toaster :: "toast_options list"

definition handleApiError :: "js_error \<Rightarrow> browser \<Rightarrow> browser" where
  "handleApiError error b =
     (case error of
        ApiError status body \<Rightarrow>
          if status = 401 then
            b\<lparr>localStorage := (localStorage b)(''access_token'' := None),
              location_href := ''/login''\<rparr>
          else if status = 403 then
            (let errorDetail = js_or (opt_get body ''detail'') (JStr ''Access forbidden'')
             in b\<lparr>toaster := toaster b @
                  [\<lparr>toast_title = ''Access Denied'', toast_description = errorDetail,
                    toast_type = ''error'', toast_duration = 6000\<rparr>]\<rparr>)
          else b
      | OtherError msg \<Rightarrow> b)"

text \<open>
  The query client: one handler on the query cache, one on the mutation cache.
  Every query and mutation of the application runs through this client.
\<close>

record query_client =
  queryCache_onError :: "js_error \<Rightarrow> browser \<Rightarrow> browser"
  mutationCache_onError :: "js_error \<Rightarrow> browser \<Rightarrow> browser"

definition queryClient :: query_client where
  "queryClient =
     \<lparr>queryCache_onError = handleApiError, mutationCache_onError = handleApiError\<rparr>"

section \<open>creator.tsx: the creator dashboard and the profile setup\<close>

text \<open>The state of the template form, as \<open>useState\<close> holds it.\<close>

record template_form =
  title :: string
  description :: string
  creator_notes :: string
  core_experience :: js_value
  flexible_logistics :: js_value

text \<open>
  The initial value of \<open>templateFormData\<close>, which \<open>onSuccess\<close> writes again:
  three empty strings and two empty objects.
\<close>

definition templateFormData_initial :: template_form where
  "templateFormData_initial =
     \<lparr>title = [], description = [], creator_notes = [],
      core_experience = JObj [], flexible_logistics = JObj []\<rparr>"

text \<open>The state of the profile form of \<open>CreatorSetup\<close>.\<close>

record creator_form =
  username :: string
  display_name :: string
  bio :: string

text \<open>The calls of the generated API client that the three pages make.\<close>

datatype api_request =
    GetMyCreatorProfile
  | GetMyTemplates nat nat
  | CreateTripTemplate template_form
  | CreateCreatorProfile creator_form
  | DiscoverTemplates nat nat "string option"

text \<open>The two toasts of \<open>useCustomToast\<close>.\<close>

datatype custom_toast =
    SuccessToast string
  | ErrorToast string

text \<open>
  The effects a handler can have outside its component's own state: toasts
  shown, query keys given to \<open>queryClient.invalidateQueries\<close>, and requests
  handed to the API client, each in the order of the calls.
\<close>

record effects =
  toasts :: "custom_toast list"
  invalidated :: "string list list"
  requests :: "api_request list"

record dashboard_state = effects +
  showTemplateForm :: bool
  templateFormData :: template_form

record setup_state = effects +
  showForm :: bool
  formData :: creator_form

definition showSuccessToast :: "string \<Rightarrow> 'a effects_scheme \<Rightarrow> 'a effects_scheme" where
  "showSuccessToast msg s = s\<lparr>toasts := toasts s @ [SuccessToast msg]\<rparr>"

definition showErrorToast :: "string \<Rightarrow> 'a effects_scheme \<Rightarrow> 'a effects_scheme" where
  "showErrorToast msg s = s\<lparr>toasts := toasts s @ [ErrorToast msg]\<rparr>"

definition invalidateQueries :: "string list \<Rightarrow> 'a effects_scheme \<Rightarrow> 'a effects_scheme" where
  "invalidateQueries key s = s\<lparr>invalidated := invalidated s @ [key]\<rparr>"

text \<open>
  A query as \<open>useQuery\<close> is given it: its key, the request its \<open>queryFn\<close>
  makes, and whether it is enabled.
\<close>

record query_options =
  queryKey :: "string list"
  queryFn :: api_request
  enabled :: bool

text \<open>The profile query has no \<open>enabled\<close> option, so it is always enabled.\<close>

definition profileQuery :: query_options where
  "profileQuery =
     \<lparr>queryKey = [''creator'', ''profile''], queryFn = GetMyCreatorProfile, enabled = True\<rparr>"

text \<open>
  The own-templates query, \<open>enabled: !!creator\<close>. \<open>creator\<close> is the profile
  query's \<open>data\<close>: a profile object, or \<open>undefined\<close> (here \<open>None\<close>).
\<close>

definition templatesQuery :: "'c option \<Rightarrow> query_options" where
  "templatesQuery creator =
     \<lparr>queryKey = [''creator'', ''templates''], queryFn = GetMyTemplates 0 10,
      enabled = (creator \<noteq> None)\<rparr>"

text \<open>
  What a mounted query may send: the request of its \<open>queryFn\<close> while it is
  enabled, nothing while it is disabled.
\<close>

definition useQuery_requests :: "query_options \<Rightarrow> api_request list" where
  "useQuery_requests q = (if enabled q then [queryFn q] else [])"

definition CreatorDashboard_queries :: "'c option \<Rightarrow> api_request list" where
  "CreatorDashboard_queries creator =
     useQuery_requests profileQuery @ useQuery_requests (templatesQuery creator)"

subsection \<open>The create-template mutation\<close>

text \<open>\<open>mutate(data)\<close> runs \<open>mutationFn\<close>, which sends the form as the request body.\<close>

definition createTemplateMutation_mutate :: "template_form \<Rightarrow> dashboard_state \<Rightarrow> dashboard_state" where
  "createTemplateMutation_mutate data s =
     s\<lparr>requests := requests s @ [CreateTripTemplate data]\<rparr>"

definition createTemplateMutation_onSuccess :: "dashboard_state \<Rightarrow> dashboard_state" where
  "createTemplateMutation_onSuccess s =
     (let s1 = showSuccessToast ''Template created successfully'' s;
          s2 = invalidateQueries [''creator'', ''templates''] s1;
          s3 = s2\<lparr>showTemplateForm := False\<rparr>
      in s3\<lparr>templateFormData :=
              \<lparr>title = [], description = [], creator_notes = [],
               core_experience = JObj [], flexible_logistics = JObj []\<rparr>\<rparr>)"

text \<open>\<open>error.message || "Failed to create template"\<close>, shown as an error toast.\<close>

definition createTemplateMutation_onError :: "string \<Rightarrow> dashboard_state \<Rightarrow> dashboard_state" where
  "createTemplateMutation_onError message s =
     showErrorToast (if truthy (JStr message) then message else ''Failed to create template'') s"

text \<open>
  The request settles: \<open>Inr\<close> the created record, \<open>Inl\<close> the message of the
  error. The mutation then calls \<open>onSuccess\<close> or \<open>onError\<close>.
\<close>

definition createTemplateMutation_settled :: "string + 'r \<Rightarrow> dashboard_state \<Rightarrow> dashboard_state" where
  "createTemplateMutation_settled outcome s =
     (case outcome of
        Inr created \<Rightarrow> createTemplateMutation_onSuccess s
      | Inl message \<Rightarrow> createTemplateMutation_onError message s)"

subsection \<open>Submitting the template form\<close>

definition handleTemplateSubmit :: "dashboard_state \<Rightarrow> dashboard_state" where
  "handleTemplateSubmit s =
     (let f = templateFormData s in
      if \<not> truthy (JStr (title f)) \<or> \<not> truthy (JStr (description f)) then
        showErrorToast ''Please fill in all required fields'' s
      else
        (let templateData =
           f\<lparr>core_experience :=
                js_or (core_experience f) (JObj [(''destination'', JStr (title f))]),
             flexible_logistics :=
                js_or (flexible_logistics f) (JObj [(''duration'', JStr ''7 days'')])\<rparr>
         in createTemplateMutation_mutate templateData s))"

subsection \<open>What the dashboard renders\<close>

datatype dashboard_view =
    LoadingView
  | CreatorSetupView
  | TemplateCreationFormView
  | DashboardView

text \<open>
  \<open>creator\<close>, \<open>creatorLoading\<close> and \<open>creatorError\<close> are the \<open>data\<close>,
  \<open>isLoading\<close> and \<open>error\<close> of the profile query.
\<close>

definition CreatorDashboard ::
    "'c option \<Rightarrow> bool \<Rightarrow> js_error option \<Rightarrow> dashboard_state \<Rightarrow> dashboard_view" where
  "CreatorDashboard creator creatorLoading creatorError s =
     (if creatorLoading then LoadingView
      else if creatorError \<noteq> None \<or> creator = None then CreatorSetupView
      else if showTemplateForm s then TemplateCreationFormView
      else DashboardView)"

subsection \<open>Submitting the profile form\<close>

definition createCreatorMutation_mutate :: "creator_form \<Rightarrow> setup_state \<Rightarrow> setup_state" where
  "createCreatorMutation_mutate data s =
     s\<lparr>requests := requests s @ [CreateCreatorProfile data]\<rparr>"

definition createCreatorMutation_onSuccess :: "setup_state \<Rightarrow> setup_state" where
  "createCreatorMutation_onSuccess s =
     invalidateQueries [''creator'', ''profile'']
       (showSuccessToast ''Creator profile created successfully'' s)"

definition createCreatorMutation_onError :: "string \<Rightarrow> setup_state \<Rightarrow> setup_state" where
  "createCreatorMutation_onError message s =
     showErrorToast
       (if truthy (JStr message) then message else ''Failed to create creator profile'') s"

definition handleSubmit :: "setup_state \<Rightarrow> setup_state" where
  "handleSubmit s =
     (let f = formData s in
      if \<not> truthy (JStr (username f)) \<or> \<not> truthy (JStr (display_name f)) then
        showErrorToast ''Please fill in all required fields'' s
      else createCreatorMutation_mutate f s)"

section \<open>templates.tsx: the discovery page\<close>

text \<open>\<open>search || undefined\<close> on a string: absent when the string is empty.\<close>

definition search_or_undefined :: "string \<Rightarrow> string option" where
  "search_or_undefined search = (if truthy (JStr search) then Some search else None)"

definition discoverQuery :: "string \<Rightarrow> query_options" where
  "discoverQuery search =
     \<lparr>queryKey = [''templates'', ''discover'', search],
      queryFn = DiscoverTemplates 0 20 (search_or_undefined search),
      enabled = True\<rparr>"

text \<open>The response of the discovery endpoint: the page of items and the total.\<close>

record 't templates_public =
  data :: "'t list"
  count :: nat

datatype 't discovery_view =
    LoadingTemplates
  | FailedToLoad
  | NoTemplatesFound string
  | TemplateGrid "'t list"

text \<open>
  The conditional under "Templates Grid". \<open>templatesData\<close>, \<open>isLoading\<close> and
  \<open>error\<close> are what the query returns. \<open>templatesData?.data?.length === 0\<close> is
  false when there is no data, and the grid then maps over nothing.
\<close>

definition TemplateDiscovery ::
    "string \<Rightarrow> 't templates_public option \<Rightarrow> bool \<Rightarrow> js_error option \<Rightarrow> 't discovery_view" where
  "TemplateDiscovery search templatesData isLoading error =
     (if isLoading then LoadingTemplates
      else if error \<noteq> None then FailedToLoad
      else if map_option (\<lambda>d. length (data d)) templatesData = Some 0 then
        NoTemplatesFound
          (if truthy (JStr search) then ''Try adjusting your search terms''
           else ''No templates available yet'')
      else TemplateGrid (case templatesData of None \<Rightarrow> [] | Some d \<Rightarrow> data d))"

section \<open>The discovery service behind the page\<close>

text \<open>
  The page only displays what \<open>TemplatesService.discoverTemplates\<close> returns; which
  templates that is, is decided by the backend's discovery service, whose
  code is not among the sources at hand. It is modelled from section 4.3 of
  the specification, over the data model of section 3.
\<close>

datatype creator_status = Pending | Active | Suspended

datatype template_status = Draft | Published

record Creator =
  c_id :: nat
  c_user_id :: nat
  c_username :: string
  c_display_name :: string
  c_bio :: "string option"
  c_status :: creator_status

record TripTemplate =
  t_id :: nat
  t_creator_id :: nat
  t_title :: string
  t_description :: string
  t_creator_notes :: "string option"
  t_core_experience :: js_value
  t_flexible_logistics :: js_value
  t_status :: template_status
  t_views_count :: nat
  t_created_at :: nat

text \<open>A returned item: the template with the snapshot of its creator.\<close>

record DiscoveredTemplate = TripTemplate +
  creator_username :: string
  creator_display_name :: string

record persistence =
  creators :: "Creator list"
  templates :: "TripTemplate list"

record discover_query =
  q_search :: "string option"
  q_skip :: nat
  q_limit :: nat

record discover_result =
  items :: "DiscoveredTemplate list"
  total_count :: nat

text \<open>Lower case of an ASCII letter; other characters are left as they are.\<close>

definition lower_char :: "char \<Rightarrow> char" where
  "lower_char c =
     (let n = (of_char c :: nat) in if 65 \<le> n \<and> n \<le> 90 then char_of (n + 32) else c)"

definition lower :: "string \<Rightarrow> string" where
  "lower s = map lower_char s"

text \<open>\<open>contains hay needle\<close>: \<open>needle\<close> occurs in \<open>hay\<close> as a substring.\<close>

fun contains :: "string \<Rightarrow> string \<Rightarrow> bool" where
  "contains [] needle = (needle = [])"
| "contains (x # xs) needle =
     (take (length needle) (x # xs) = needle \<or> contains xs needle)"

definition owner_of :: "persistence \<Rightarrow> TripTemplate \<Rightarrow> Creator option" where
  "owner_of db t = find (\<lambda>c. c_id c = t_creator_id t) (creators db)"

text \<open>
  Modelled from the spec: the visibility rule of the Discovery Service
  (section 4.3 and the invariants of section 3). A template is discoverable
  when it is published and its \<open>creator_id\<close> names an existing creator who is
  not suspended.
\<close>

definition discoverable :: "persistence \<Rightarrow> TripTemplate \<Rightarrow> bool" where
  "discoverable db t =
     (t_status t = Published \<and>
      (case owner_of db t of None \<Rightarrow> False | Some c \<Rightarrow> c_status c \<noteq> Suspended))"

text \<open>
  Modelled from the spec: the search filter of the Discovery Service. A search
  that is given and non-empty keeps the templates whose title or description
  contains the term, compared case-insensitively; no search, or the empty one,
  keeps all.
\<close>

definition matches_search :: "string option \<Rightarrow> TripTemplate \<Rightarrow> bool" where
  "matches_search q t =
     (case q of
        None \<Rightarrow> True
      | Some wanted \<Rightarrow>
          wanted = [] \<or> contains (lower (t_title t)) (lower wanted)
                    \<or> contains (lower (t_description t)) (lower wanted))"

text \<open>Newest first; of two templates created at the same time, the lower id first.\<close>

definition newer_eq :: "TripTemplate \<Rightarrow> TripTemplate \<Rightarrow> bool" where
  "newer_eq a b =
     (t_created_at b < t_created_at a \<or> (t_created_at a = t_created_at b \<and> t_id a \<le> t_id b))"

fun insert_newest_first :: "TripTemplate \<Rightarrow> TripTemplate list \<Rightarrow> TripTemplate list" where
  "insert_newest_first t [] = [t]"
| "insert_newest_first t (u # us) =
     (if newer_eq t u then t # u # us else u # insert_newest_first t us)"

definition newest_first :: "TripTemplate list \<Rightarrow> TripTemplate list" where
  "newest_first ts = foldr insert_newest_first ts []"

definition enrich :: "persistence \<Rightarrow> TripTemplate \<Rightarrow> DiscoveredTemplate" where
  "enrich db t =
     (case owner_of db t of
        Some c \<Rightarrow>
          TripTemplate.extend t
            \<lparr>creator_username = c_username c, creator_display_name = c_display_name c\<rparr>
      | None \<Rightarrow>
          TripTemplate.extend t \<lparr>creator_username = [], creator_display_name = []\<rparr>)"

text \<open>
  Modelled from the spec: \<open>discover\<close> of the Discovery Service, absent from the
  sources (section 4.3). The discoverable templates that match the search,
  newest first, cut to the page from \<open>q_skip\<close> of at most \<open>q_limit\<close> items, the limit
  clamped to 100; each item carries its creator's snapshot, and \<open>total_count\<close>
  counts the matches before paging.
\<close>

definition discover :: "persistence \<Rightarrow> discover_query \<Rightarrow> discover_result" where
  "discover db q =
     (let found = filter (\<lambda>t. discoverable db t \<and> matches_search (q_search q) t) (templates db);
          page = take (min (q_limit q) 100) (drop (q_skip q) (newest_first found))
      in \<lparr>items = map (enrich db) page, total_count = length found\<rparr>)"

section \<open>The profile lookup's NotFound\<close>

text \<open>
  The profile lookup answers "no profile" with status 404 (section 6 of the
  specification): the \<open>NotFound\<close> outcome, as the page receives it.
\<close>

definition NotFound :: "js_error \<Rightarrow> bool" where
  "NotFound e = (case e of ApiError status body \<Rightarrow> status = 404 | OtherError msg \<Rightarrow> False)"

section \<open>Sample states\<close>

text \<open>A browser holding a credential, on the creator page.\<close>

definition signed_in_browser :: browser where
  "signed_in_browser =
     \<lparr>localStorage = [''access_token'' \<mapsto> ''jwt''], location_href = ''/creator'',
      toaster = []\<rparr>"

text \<open>
  The template form as the page creates it, with a title and a description
  typed in: the form has no input for the two mappings, which keep their
  initial value \<open>{}\<close>.
\<close>

definition filled_dashboard :: dashboard_state where
  "filled_dashboard =
     \<lparr>toasts = [], invalidated = [], requests = [], showTemplateForm = True,
      templateFormData =
        \<lparr>title = ''7-Day Tokyo Adventure'', description = ''A week in Tokyo'',
         creator_notes = [], core_experience = JObj [], flexible_logistics = JObj []\<rparr>\<rparr>"

text \<open>The same form with the title left empty.\<close>

definition untitled_dashboard :: dashboard_state where
  "untitled_dashboard =
     \<lparr>toasts = [], invalidated = [], requests = [], showTemplateForm = True,
      templateFormData =
        \<lparr>title = [], description = ''A week in Tokyo'',
         creator_notes = [], core_experience = JObj [], flexible_logistics = JObj []\<rparr>\<rparr>"

text \<open>The dashboard with the template form closed.\<close>

definition closed_dashboard :: dashboard_state where
  "closed_dashboard =
     \<lparr>toasts = [], invalidated = [], requests = [], showTemplateForm = False,
      templateFormData = templateFormData_initial\<rparr>"

text \<open>The profile form filled in, and with the username left empty.\<close>

definition filled_setup :: setup_state where
  "filled_setup =
     \<lparr>toasts = [], invalidated = [], requests = [], showForm = True,
      formData = \<lparr>username = ''wanderer'', display_name = ''Wandering Ann'', bio = []\<rparr>\<rparr>"

definition unnamed_setup :: setup_state where
  "unnamed_setup =
     \<lparr>toasts = [], invalidated = [], requests = [], showForm = True,
      formData = \<lparr>username = [], display_name = ''Wandering Ann'', bio = ''Hello''\<rparr>\<rparr>"

text \<open>
  Two creators, one of them suspended, and three templates that all mention
  Tokyo: a published one and a draft of the first creator, and a published
  one of the suspended creator.
\<close>

definition ann :: Creator where
  "ann = \<lparr>c_id = 1, c_user_id = 10, c_username = ''wanderer'',
          c_display_name = ''Wandering Ann'', c_bio = None, c_status = Active\<rparr>"

definition bob :: Creator where
  "bob = \<lparr>c_id = 2, c_user_id = 11, c_username = ''bob'',
          c_display_name = ''Bob'', c_bio = Some ''Banned'', c_status = Suspended\<rparr>"

definition tokyo_published :: TripTemplate where
  "tokyo_published =
     \<lparr>t_id = 1, t_creator_id = 1, t_title = ''7-Day Tokyo Adventure'',
      t_description = ''A week in Japan'', t_creator_notes = None,
      t_core_experience = JObj [], t_flexible_logistics = JObj [],
      t_status = Published, t_views_count = 0, t_created_at = 100\<rparr>"

definition tokyo_draft :: TripTemplate where
  "tokyo_draft =
     \<lparr>t_id = 2, t_creator_id = 1, t_title = ''Tokyo on a Budget'',
      t_description = ''Cheap eats'', t_creator_notes = None,
      t_core_experience = JObj [], t_flexible_logistics = JObj [],
      t_status = Draft, t_views_count = 0, t_created_at = 200\<rparr>"

definition tokyo_suspended :: TripTemplate where
  "tokyo_suspended =
     \<lparr>t_id = 3, t_creator_id = 2, t_title = ''Tokyo Nights'',
      t_description = ''Bars'', t_creator_notes = None,
      t_core_experience = JObj [], t_flexible_logistics = JObj [],
      t_status = Published, t_views_count = 0, t_created_at = 300\<rparr>"

definition sample_db :: persistence where
  "sample_db = \<lparr>creators = [ann, bob],
                 templates = [tokyo_published, tokyo_draft, tokyo_suspended]\<rparr>"

definition tokyo_query :: discover_query where
  "tokyo_query = \<lparr>q_search = Some ''TOKYO'', q_skip = 0, q_limit = 10\<rparr>"

section \<open>Properties of the global error handler\<close>

lemma handleApiError_401:
  "handleApiError (ApiError 401 body) b =
     b\<lparr>localStorage := (localStorage b)(''access_token'' := None),
       location_href := ''/login''\<rparr>"
  by (simp add: handleApiError_def)

lemma handleApiError_403:
  "handleApiError (ApiError 403 body) b =
     b\<lparr>toaster := toaster b @
        [\<lparr>toast_title = ''Access Denied'',
          toast_description = js_or (opt_get body ''detail'') (JStr ''Access forbidden''),
          toast_type = ''error'', toast_duration = 6000\<rparr>]\<rparr>"
  by (simp add: handleApiError_def)

lemma handleApiError_other_status:
  "status \<noteq> 401 \<Longrightarrow> status \<noteq> 403 \<Longrightarrow> handleApiError (ApiError status body) b = b"
  by (simp add: handleApiError_def)

lemma handleApiError_not_ApiError: "handleApiError (OtherError msg) b = b"
  by (simp add: handleApiError_def)

text \<open>
  Claim C2. For an \<open>ApiError\<close> given to the global handler: with status 401 the
  \<open>access_token\<close> entry is removed from \<open>localStorage\<close> (the other entries stay)
  and the location becomes the login page, and no toast is created; with
  status 403 the "Access Denied" error toast is created while \<open>localStorage\<close>
  and the location stay as they were; with any other status nothing changes.
  The query cache and the mutation cache of the client both use this one
  handler, so the rule holds for every query and mutation and not per call.
\<close>

theorem handleApiError_global_401_403:
  fixes status :: int and body :: js_value and b :: browser
  defines "b' \<equiv> handleApiError (ApiError status body) b"
  shows "(status = 401 \<longrightarrow>
            localStorage b' ''access_token'' = None
          \<and> (\<forall>k. k \<noteq> ''access_token'' \<longrightarrow> localStorage b' k = localStorage b k)
          \<and> location_href b' = ''/login''
          \<and> toaster b' = toaster b)
       \<and> (status = 403 \<longrightarrow>
            localStorage b' = localStorage b
          \<and> location_href b' = location_href b
          \<and> toaster b' = toaster b @
               [\<lparr>toast_title = ''Access Denied'',
                 toast_description = js_or (opt_get body ''detail'') (JStr ''Access forbidden''),
                 toast_type = ''error'', toast_duration = 6000\<rparr>])
       \<and> (status \<noteq> 401 \<and> status \<noteq> 403 \<longrightarrow> b' = b)
       \<and> queryCache_onError queryClient = handleApiError
       \<and> mutationCache_onError queryClient = handleApiError"
proof -
  have c401: "status = 401 \<Longrightarrow> b' =
      b\<lparr>localStorage := (localStorage b)(''access_token'' := None),
        location_href := ''/login''\<rparr>"
    unfolding b'_def by (simp add: handleApiError_401)
  have c403: "status = 403 \<Longrightarrow> b' =
      b\<lparr>toaster := toaster b @
        [\<lparr>toast_title = ''Access Denied'',
          toast_description = js_or (opt_get body ''detail'') (JStr ''Access forbidden''),
          toast_type = ''error'', toast_duration = 6000\<rparr>]\<rparr>"
    unfolding b'_def by (simp add: handleApiError_403)
  have other: "status \<noteq> 401 \<and> status \<noteq> 403 \<longrightarrow> b' = b"
    unfolding b'_def by (simp add: handleApiError_other_status)
  have client: "queryCache_onError queryClient = handleApiError
      \<and> mutationCache_onError queryClient = handleApiError"
    by (simp add: queryClient_def)
  from c401 c403 other client show ?thesis by simp
qed

theorem handleApiError_global_401_403_witness:
  "localStorage (handleApiError (ApiError 401 JNull) signed_in_browser) ''access_token'' = None
   \<and> location_href (handleApiError (ApiError 401 JNull) signed_in_browser) = ''/login''
   \<and> localStorage
        (handleApiError (ApiError 403 (JObj [(''detail'', JStr ''Not enough privileges'')]))
           signed_in_browser) ''access_token'' = Some ''jwt''
   \<and> location_href
        (handleApiError (ApiError 403 (JObj [(''detail'', JStr ''Not enough privileges'')]))
           signed_in_browser) = ''/creator''
   \<and> map toast_description
        (toaster
           (handleApiError (ApiError 403 (JObj [(''detail'', JStr ''Not enough privileges'')]))
              signed_in_browser)) = [JStr ''Not enough privileges'']
   \<and> handleApiError (ApiError 500 JNull) signed_in_browser = signed_in_browser"
  using
    handleApiError_global_401_403 [of 401 JNull signed_in_browser]
    handleApiError_global_401_403
      [of 403 "JObj [(''detail'', JStr ''Not enough privileges'')]" signed_in_browser]
    handleApiError_global_401_403 [of 500 JNull signed_in_browser]
  by (simp add: signed_in_browser_def js_or_def opt_get_def truthy_def)

section \<open>Submitting the template form\<close>

lemma handleTemplateSubmit_rejects:
  assumes "title (templateFormData s) = [] \<or> description (templateFormData s) = []"
  shows "handleTemplateSubmit s = showErrorToast ''Please fill in all required fields'' s"
  using assms by (auto simp: handleTemplateSubmit_def Let_def truthy_def)

lemma handleTemplateSubmit_sends:
  assumes "title (templateFormData s) \<noteq> []" and "description (templateFormData s) \<noteq> []"
  shows "handleTemplateSubmit s =
     createTemplateMutation_mutate
       ((templateFormData s)
          \<lparr>core_experience :=
             js_or (core_experience (templateFormData s))
               (JObj [(''destination'', JStr (title (templateFormData s)))]),
           flexible_logistics :=
             js_or (flexible_logistics (templateFormData s))
               (JObj [(''duration'', JStr ''7 days'')])\<rparr>) s"
  using assms by (simp add: handleTemplateSubmit_def Let_def truthy_def)

lemma js_or_object: "js_or (JObj kvs) d = JObj kvs"
  by (simp add: js_or_def truthy_def)

lemma js_or_absent: "js_or JUndefined d = d" "js_or JNull d = d"
  by (simp_all add: js_or_def truthy_def)

text \<open>
  What \<open>||\<close> does to a mapping of the form: an object, the empty one included,
  is kept; only an absent value gives way to the default.
\<close>

lemma handleTemplateSubmit_keeps_objects:
  assumes "title (templateFormData s) \<noteq> []" and "description (templateFormData s) \<noteq> []"
    and "core_experience (templateFormData s) = JObj ce"
    and "flexible_logistics (templateFormData s) = JObj fl"
  shows "handleTemplateSubmit s = createTemplateMutation_mutate (templateFormData s) s"
proof -
  have same: "(templateFormData s)\<lparr>core_experience := JObj ce, flexible_logistics := JObj fl\<rparr>
      = templateFormData s"
    using assms(3,4) by (cases "templateFormData s") simp
  from assms show ?thesis
    by (simp add: handleTemplateSubmit_sends js_or_object same)
qed

lemma handleTemplateSubmit_defaults_when_absent:
  assumes "title (templateFormData s) \<noteq> []" and "description (templateFormData s) \<noteq> []"
    and "core_experience (templateFormData s) = JUndefined"
    and "flexible_logistics (templateFormData s) = JUndefined"
  shows "handleTemplateSubmit s =
     createTemplateMutation_mutate
       ((templateFormData s)
          \<lparr>core_experience := JObj [(''destination'', JStr (title (templateFormData s)))],
           flexible_logistics := JObj [(''duration'', JStr ''7 days'')]\<rparr>) s"
  using assms by (simp add: handleTemplateSubmit_sends js_or_absent)

text \<open>
  Claim C1. A submission in which the two mappings were not supplied should
  carry \<open>{destination: title}\<close> and \<open>{duration: "7 days"}\<close>. The form the page
  creates holds \<open>{}\<close> for both, and \<open>{}\<close> is truthy: submitting it with a title
  and a description sends one create request whose \<open>core_experience\<close> and
  \<open>flexible_logistics\<close> are the empty objects, neither of them the default.
\<close>

theorem handleTemplateSubmit_untouched_mappings_sent_empty:
  "requests (handleTemplateSubmit filled_dashboard) =
     [CreateTripTemplate
        \<lparr>title = ''7-Day Tokyo Adventure'', description = ''A week in Tokyo'',
         creator_notes = [], core_experience = JObj [], flexible_logistics = JObj []\<rparr>]
   \<and> JObj [] \<noteq> JObj [(''destination'', JStr ''7-Day Tokyo Adventure'')]
   \<and> JObj [] \<noteq> JObj [(''duration'', JStr ''7 days'')]"
  by (simp add: filled_dashboard_def handleTemplateSubmit_def Let_def truthy_def js_or_def
        createTemplateMutation_mutate_def)

theorem handleTemplateSubmit_untouched_mappings_sent_empty_witness:
  "title (templateFormData filled_dashboard) \<noteq> []
   \<and> description (templateFormData filled_dashboard) \<noteq> []
   \<and> core_experience (templateFormData filled_dashboard) = JObj []
   \<and> flexible_logistics (templateFormData filled_dashboard) = JObj []
   \<and> length (requests (handleTemplateSubmit filled_dashboard)) = 1
   \<and> toasts (handleTemplateSubmit filled_dashboard) = []"
proof -
  have form: "title (templateFormData filled_dashboard) \<noteq> []
      \<and> description (templateFormData filled_dashboard) \<noteq> []
      \<and> core_experience (templateFormData filled_dashboard) = JObj []
      \<and> flexible_logistics (templateFormData filled_dashboard) = JObj []"
    by (simp add: filled_dashboard_def)
  have sent: "length (requests (handleTemplateSubmit filled_dashboard)) = 1"
    using handleTemplateSubmit_untouched_mappings_sent_empty by simp
  have quiet: "toasts (handleTemplateSubmit filled_dashboard) = []"
    using form
    by (simp add: handleTemplateSubmit_sends createTemplateMutation_mutate_def
          filled_dashboard_def)
  from form sent quiet show ?thesis by simp
qed

text \<open>
  Claim C3. A submission of the template form whose title or description is
  the empty string shows the error toast "Please fill in all required
  fields", issues no request (so no create-template request and no record),
  and leaves the form data, the form's visibility and the invalidated
  queries as they were.
\<close>

theorem handleTemplateSubmit_empty_required_field:
  assumes "title (templateFormData s) = [] \<or> description (templateFormData s) = []"
  shows "toasts (handleTemplateSubmit s) =
           toasts s @ [ErrorToast ''Please fill in all required fields'']
       \<and> requests (handleTemplateSubmit s) = requests s
       \<and> templateFormData (handleTemplateSubmit s) = templateFormData s
       \<and> showTemplateForm (handleTemplateSubmit s) = showTemplateForm s
       \<and> invalidated (handleTemplateSubmit s) = invalidated s"
  by (simp add: handleTemplateSubmit_rejects [OF assms] showErrorToast_def)

theorem handleTemplateSubmit_empty_required_field_witness:
  "title (templateFormData untitled_dashboard) = []
   \<and> toasts (handleTemplateSubmit untitled_dashboard) =
       [ErrorToast ''Please fill in all required fields'']
   \<and> requests (handleTemplateSubmit untitled_dashboard) = []
   \<and> templateFormData (handleTemplateSubmit untitled_dashboard) =
       templateFormData untitled_dashboard"
proof -
  have h: "title (templateFormData untitled_dashboard) = []
      \<or> description (templateFormData untitled_dashboard) = []"
    by (simp add: untitled_dashboard_def)
  show ?thesis
    using handleTemplateSubmit_empty_required_field [OF h]
    by (simp add: untitled_dashboard_def)
qed

section \<open>The create-template mutation and the own-templates query\<close>

text \<open>
  Claim C9. When the create-template request succeeds, the template form is
  closed, the form data is the initial value again (empty title, description
  and creator notes, empty mappings), and the key of the own-templates query
  is invalidated; the success toast is shown and no further request is made
  by the handler.
\<close>

theorem createTemplateMutation_success_resets_form:
  fixes s :: dashboard_state and created :: 'r
  defines "s' \<equiv> createTemplateMutation_settled (Inr created) s"
  shows "showTemplateForm s' = False
       \<and> templateFormData s' =
           \<lparr>title = [], description = [], creator_notes = [],
            core_experience = JObj [], flexible_logistics = JObj []\<rparr>
       \<and> templateFormData s' = templateFormData_initial
       \<and> invalidated s' = invalidated s @ [queryKey (templatesQuery creator)]
       \<and> queryKey (templatesQuery creator) = [''creator'', ''templates'']
       \<and> toasts s' = toasts s @ [SuccessToast ''Template created successfully'']
       \<and> requests s' = requests s"
  unfolding s'_def
  by (simp add: createTemplateMutation_settled_def createTemplateMutation_onSuccess_def
        showSuccessToast_def invalidateQueries_def templatesQuery_def templateFormData_initial_def)

text \<open>
  Claim C10. The own-templates query is enabled exactly when the profile
  query carries a profile. While it carries none (loading, failed or
  absent), the query sends nothing and no list-own-templates request is among
  the requests of the dashboard's queries.
\<close>

theorem templatesQuery_enabled_iff_profile:
  "enabled (templatesQuery creator) = (creator \<noteq> None)
   \<and> (creator = None \<longrightarrow>
        useQuery_requests (templatesQuery creator) = []
      \<and> (\<forall>sk lim. GetMyTemplates sk lim \<notin> set (CreatorDashboard_queries creator)))"
  by (simp add: templatesQuery_def useQuery_requests_def CreatorDashboard_queries_def
        profileQuery_def)

theorem templatesQuery_enabled_iff_profile_witness:
  "\<not> enabled (templatesQuery (None :: Creator option))
   \<and> CreatorDashboard_queries (None :: Creator option) = [GetMyCreatorProfile]
   \<and> enabled (templatesQuery (Some ann))
   \<and> CreatorDashboard_queries (Some ann) = [GetMyCreatorProfile, GetMyTemplates 0 10]"
  using templatesQuery_enabled_iff_profile [of "None :: Creator option"]
    templatesQuery_enabled_iff_profile [of "Some ann"]
  by (simp add: CreatorDashboard_queries_def useQuery_requests_def profileQuery_def
        templatesQuery_def)

section \<open>What the dashboard renders\<close>

text \<open>
  Claim C5, as stated, asks that only the absence of a profile (NotFound)
  leads to the setup flow. The dashboard does not look at the kind of error:
  a lookup that failed with status 500, which is not NotFound, renders the
  setup flow as well.
\<close>

theorem CreatorDashboard_setup_on_server_error:
  "CreatorDashboard (None :: Creator option) False (Some (ApiError 500 JNull)) closed_dashboard
     = CreatorSetupView
   \<and> \<not> NotFound (ApiError 500 JNull)"
  by (simp add: CreatorDashboard_def NotFound_def)

text \<open>
  Claim C5, amended. While the profile query is loading the dashboard renders
  the loading view. Once it is not loading, the setup flow is rendered exactly
  when the query has an error, of any kind, or carries no profile; so a
  NotFound answer renders the setup flow and never an error view.
\<close>

theorem CreatorDashboard_setup_iff:
  "(creatorLoading \<longrightarrow> CreatorDashboard creator creatorLoading creatorError s = LoadingView)
   \<and> (\<not> creatorLoading \<longrightarrow>
        (CreatorDashboard creator creatorLoading creatorError s = CreatorSetupView)
          = (creatorError \<noteq> None \<or> creator = None))
   \<and> (\<not> creatorLoading \<and> creatorError = Some e \<and> NotFound e \<longrightarrow>
        CreatorDashboard creator creatorLoading creatorError s = CreatorSetupView)"
  by (simp add: CreatorDashboard_def)

theorem CreatorDashboard_setup_iff_witness:
  "CreatorDashboard (None :: Creator option) True None closed_dashboard = LoadingView
   \<and> CreatorDashboard (None :: Creator option) False (Some (ApiError 404 JNull)) closed_dashboard
       = CreatorSetupView
   \<and> NotFound (ApiError 404 JNull)
   \<and> CreatorDashboard (Some ann) False None closed_dashboard \<noteq> CreatorSetupView"
  using CreatorDashboard_setup_iff [of True "None :: Creator option" None closed_dashboard]
    CreatorDashboard_setup_iff
      [of False "None :: Creator option" "Some (ApiError 404 JNull)" closed_dashboard
          "ApiError 404 JNull"]
    CreatorDashboard_setup_iff [of False "Some ann" None closed_dashboard]
  by (simp add: NotFound_def)

section \<open>Submitting the profile form\<close>

text \<open>
  Claim C7. A submission of the profile form whose username or display name
  is the empty string shows the error toast and issues no request. With both
  non-empty, exactly one createCreatorProfile request is added, carrying the
  entered username, display name and bio, and no toast is shown.
\<close>

theorem handleSubmit_validates_then_sends:
  fixes s :: setup_state
  defines "f \<equiv> formData s"
  shows "(username f = [] \<or> display_name f = [] \<longrightarrow>
            toasts (handleSubmit s) = toasts s @ [ErrorToast ''Please fill in all required fields'']
          \<and> requests (handleSubmit s) = requests s)
       \<and> (username f \<noteq> [] \<and> display_name f \<noteq> [] \<longrightarrow>
            requests (handleSubmit s) =
              requests s @
                [CreateCreatorProfile
                   \<lparr>username = username f, display_name = display_name f, bio = bio f\<rparr>]
          \<and> toasts (handleSubmit s) = toasts s)"
  unfolding f_def
  by (simp add: handleSubmit_def Let_def truthy_def showErrorToast_def
        createCreatorMutation_mutate_def)

theorem handleSubmit_validates_then_sends_witness:
  "requests (handleSubmit unnamed_setup) = []
   \<and> toasts (handleSubmit unnamed_setup) = [ErrorToast ''Please fill in all required fields'']
   \<and> requests (handleSubmit filled_setup) =
       [CreateCreatorProfile
          \<lparr>username = ''wanderer'', display_name = ''Wandering Ann'', bio = []\<rparr>]
   \<and> toasts (handleSubmit filled_setup) = []"
  using handleSubmit_validates_then_sends [of unnamed_setup]
    handleSubmit_validates_then_sends [of filled_setup]
  by (simp add: unnamed_setup_def filled_setup_def)

section \<open>The discovery page\<close>

text \<open>
  Claim C6. The discover request carries the search string only when it is
  non-empty: with the empty string the request has no search filter, with any
  other string it has that string; skip is 0 and limit is 20 in both cases,
  and the query is always enabled.
\<close>

theorem discoverQuery_search_only_when_nonempty:
  "(search = [] \<longrightarrow> queryFn (discoverQuery search) = DiscoverTemplates 0 20 None)
   \<and> (search \<noteq> [] \<longrightarrow> queryFn (discoverQuery search) = DiscoverTemplates 0 20 (Some search))
   \<and> enabled (discoverQuery search)"
  by (simp add: discoverQuery_def search_or_undefined_def truthy_def)

theorem discoverQuery_search_only_when_nonempty_witness:
  "queryFn (discoverQuery []) = DiscoverTemplates 0 20 None
   \<and> queryFn (discoverQuery ''Hawaii'') = DiscoverTemplates 0 20 (Some ''Hawaii'')"
  using discoverQuery_search_only_when_nonempty [of "[]"]
    discoverQuery_search_only_when_nonempty [of "''Hawaii''"]
  by simp

text \<open>
  Claim C8. When the discovery query has succeeded (not loading, no error)
  with a response of zero items, the page renders the "No templates found"
  state, which is not the "Failed to load templates" state. The failure state
  is rendered exactly when the query is not loading and has an error, so an
  empty result alone never renders it.
\<close>

theorem TemplateDiscovery_empty_is_not_error:
  "(\<not> isLoading \<and> error = None \<and> templatesData = Some d \<and> data d = [] \<longrightarrow>
      TemplateDiscovery search templatesData isLoading error =
        NoTemplatesFound (if search = [] then ''No templates available yet''
                          else ''Try adjusting your search terms'')
    \<and> TemplateDiscovery search templatesData isLoading error \<noteq> FailedToLoad)
   \<and> ((TemplateDiscovery search templatesData isLoading error = FailedToLoad)
        = (\<not> isLoading \<and> error \<noteq> None))"
  by (auto simp: TemplateDiscovery_def truthy_def split: option.splits)

theorem TemplateDiscovery_empty_is_not_error_witness:
  "TemplateDiscovery ''Hawaii'' (Some \<lparr>data = ([] :: DiscoveredTemplate list), count = 0\<rparr>) False None
     = NoTemplatesFound ''Try adjusting your search terms''
   \<and> TemplateDiscovery ''Hawaii'' (None :: DiscoveredTemplate templates_public option) False
        (Some (OtherError ''Network Error'')) = FailedToLoad"
  using TemplateDiscovery_empty_is_not_error
      [of False None "Some \<lparr>data = ([] :: DiscoveredTemplate list), count = 0\<rparr>"
          "\<lparr>data = ([] :: DiscoveredTemplate list), count = 0\<rparr>" "''Hawaii''"]
    TemplateDiscovery_empty_is_not_error
      [of False "Some (OtherError ''Network Error'')"
          "None :: DiscoveredTemplate templates_public option" _ "''Hawaii''"]
  by simp

section \<open>The discovery service\<close>

lemma set_insert_newest_first: "set (insert_newest_first t ts) = insert t (set ts)"
  by (induction ts) auto

lemma set_newest_first: "set (newest_first ts) = set ts"
  unfolding newest_first_def by (induction ts) (simp_all add: set_insert_newest_first)

lemma owner_of_Some:
  assumes "owner_of db t = Some c"
  shows "c \<in> set (creators db) \<and> c_id c = t_creator_id t"
proof -
  from assms have "find (\<lambda>c. c_id c = t_creator_id t) (creators db) = Some c"
    by (simp add: owner_of_def)
  then obtain i where "i < length (creators db)" "creators db ! i = c" "c_id c = t_creator_id t"
    by (auto simp: find_Some_iff)
  then show ?thesis by auto
qed

lemma discoverable_owner:
  assumes "discoverable db t"
  shows "t_status t = Published
       \<and> (\<exists>c \<in> set (creators db). c_id c = t_creator_id t \<and> c_status c \<noteq> Suspended)"
proof -
  from assms have pub: "t_status t = Published"
    by (simp add: discoverable_def)
  from assms obtain c where c: "owner_of db t = Some c" "c_status c \<noteq> Suspended"
    by (auto simp: discoverable_def split: option.splits)
  from owner_of_Some [OF c(1)] c(2) pub show ?thesis by blast
qed

lemma enrich_keeps_template:
  "TripTemplate.truncate (enrich db t) = t"
  "t_status (enrich db t) = t_status t"
  "t_creator_id (enrich db t) = t_creator_id t"
  by (simp_all add: enrich_def TripTemplate.truncate_def TripTemplate.extend_def
        split: option.splits)

lemma discover_items_from:
  assumes "item \<in> set (items (discover db q))"
  shows "\<exists>t \<in> set (templates db).
           item = enrich db t \<and> discoverable db t \<and> matches_search (q_search q) t"
proof -
  from assms obtain t where
    t: "item = enrich db t"
       "t \<in> set (take (min (q_limit q) 100) (drop (q_skip q)
             (newest_first (filter (\<lambda>t. discoverable db t \<and> matches_search (q_search q) t)
                (templates db)))))"
    by (auto simp: discover_def Let_def)
  from t(2) have "t \<in> set (newest_first (filter (\<lambda>t. discoverable db t
        \<and> matches_search (q_search q) t) (templates db)))"
    by (meson in_set_takeD in_set_dropD)
  then have "t \<in> set (templates db) \<and> discoverable db t \<and> matches_search (q_search q) t"
    by (simp add: set_newest_first)
  with t(1) show ?thesis by blast
qed

text \<open>
  Claim C4. Every item that \<open>discover\<close> returns is published, so it is not a
  draft, and its \<open>creator_id\<close> names a stored creator who is not suspended. No
  returned item is a draft template, whatever the search term and whatever
  the draft's title or description.
\<close>

theorem discover_published_unsuspended_only:
  "\<forall>item \<in> set (items (discover db q)).
       t_status item = Published
     \<and> t_status item \<noteq> Draft
     \<and> (\<exists>c \<in> set (creators db). c_id c = t_creator_id item \<and> c_status c \<noteq> Suspended)
     \<and> (\<forall>t. t_status t = Draft \<longrightarrow> TripTemplate.truncate item \<noteq> t)"
proof
  fix item
  assume "item \<in> set (items (discover db q))"
  then obtain t where t: "item = enrich db t" "discoverable db t"
    using discover_items_from by blast
  from discoverable_owner [OF t(2)] have
    pub: "t_status t = Published" and
    own: "\<exists>c \<in> set (creators db). c_id c = t_creator_id t \<and> c_status c \<noteq> Suspended"
    by simp_all
  have "TripTemplate.truncate item = t"
    by (simp add: t(1) enrich_keeps_template)
  with pub own t(1) show
    "t_status item = Published
     \<and> t_status item \<noteq> Draft
     \<and> (\<exists>c \<in> set (creators db). c_id c = t_creator_id item \<and> c_status c \<noteq> Suspended)
     \<and> (\<forall>t. t_status t = Draft \<longrightarrow> TripTemplate.truncate item \<noteq> t)"
    by (auto simp: enrich_keeps_template)
qed

theorem discover_published_unsuspended_only_witness:
  "map t_id (items (discover sample_db tokyo_query)) = [1]
   \<and> tokyo_draft \<in> set (templates sample_db)
   \<and> t_status tokyo_draft = Draft
   \<and> matches_search (q_search tokyo_query) tokyo_draft
   \<and> list_all (\<lambda>item. t_status item = Published) (items (discover sample_db tokyo_query))"
proof -
  have a: "map t_id (items (discover sample_db tokyo_query)) = [1]"
    by code_simp
  have b: "tokyo_draft \<in> set (templates sample_db)"
    by (simp add: sample_db_def)
  have c: "t_status tokyo_draft = Draft"
    by (simp add: tokyo_draft_def)
  have d: "matches_search (q_search tokyo_query) tokyo_draft"
    by code_simp
  have e: "list_all (\<lambda>item. t_status item = Published) (items (discover sample_db tokyo_query))"
    using discover_published_unsuspended_only [of sample_db tokyo_query]
    by (simp add: list_all_iff)
  from a b c d e show ?thesis by simp
qed

end
